theory Spec2Isabelle
  imports Complex_Main
begin

section \<open>Python strings and errors\<close>

text \<open>
  Strings are lists of ASCII characters. Exceptions are values: every \<^verbatim>\<open>raise\<close> of the
  source is a branch returning \<open>Inl\<close> of the exception with its message.
\<close>

datatype error = ValueError string | TypeError string | KeyError string | OverflowError string

definition ascii_uppercase :: string where
  "ascii_uppercase = ''ABCDEFGHIJKLMNOPQRSTUVWXYZ''"

definition ascii_lowercase :: string where
  "ascii_lowercase = ''abcdefghijklmnopqrstuvwxyz''"

definition lower_char :: "char \<Rightarrow> char" where
  "lower_char c = (case map_of (zip ascii_uppercase ascii_lowercase) c of
                     Some d \<Rightarrow> d | None \<Rightarrow> c)"

text \<open>\<^verbatim>\<open>str.lower()\<close>\<close>

definition lower :: "string \<Rightarrow> string" where
  "lower s = map lower_char s"

text \<open>\<^verbatim>\<open>s.endswith(suffix)\<close> and its form with a tuple of suffixes\<close>

definition endswith :: "string \<Rightarrow> string \<Rightarrow> bool" where
  "endswith s suf = (length suf \<le> length s \<and> drop (length s - length suf) s = suf)"

definition endswith_any :: "string \<Rightarrow> string list \<Rightarrow> bool" where
  "endswith_any s sufs = list_ex (endswith s) sufs"

text \<open>\<^verbatim>\<open>s.split(c)[-1]\<close>: what follows the last \<open>c\<close>, the whole string when there is none\<close>

definition split_last :: "char \<Rightarrow> string \<Rightarrow> string" where
  "split_last c s = rev (takeWhile (\<lambda>x. x \<noteq> c) (rev s))"

text \<open>\<^verbatim>\<open>s.lstrip(chars)\<close>, \<^verbatim>\<open>s.rstrip(chars)\<close>\<close>

definition lstrip :: "string \<Rightarrow> string \<Rightarrow> string" where
  "lstrip chars s = dropWhile (\<lambda>x. x \<in> set chars) s"

definition rstrip :: "string \<Rightarrow> string \<Rightarrow> string" where
  "rstrip chars s = rev (dropWhile (\<lambda>x. x \<in> set chars) (rev s))"

text \<open>\<^verbatim>\<open>str(n)\<close> for an integer\<close>

definition digit_char :: "nat \<Rightarrow> char" where
  "digit_char d = ''0123456789'' ! (d mod 10)"

fun str_nat :: "nat \<Rightarrow> string" where
  "str_nat n = (if n < 10 then [digit_char n] else str_nat (n div 10) @ [digit_char n])"

declare str_nat.simps [simp del]

definition str_int :: "int \<Rightarrow> string" where
  "str_int i = (if i < 0 then CHR ''-'' # str_nat (nat (- i)) else str_nat (nat i))"

section \<open>The episode (src/feedgen/item.py)\<close>

text \<open>
  The fields of \<^verbatim>\<open>BaseEpisode.__init__\<close>; \<open>None\<close> is Python's \<^verbatim>\<open>None\<close>.
  A dictionary with fixed keys is a record, a key that may be missing is an option.
\<close>

record content_dict =
  content_text :: string
  content_type :: "string option"

record category_dict =
  cat_value :: string
  cat_domain :: "string option"

record enclosure_dict =
  enc_url :: string
  enc_length :: "string option"
  enc_type :: "string option"

text \<open>A \<^verbatim>\<open>datetime\<close>: the fields and \<^verbatim>\<open>tzinfo\<close>, an offset in minutes or \<^verbatim>\<open>None\<close>.\<close>

record datetime =
  dt_year :: nat
  dt_month :: nat
  dt_day :: nat
  dt_hour :: nat
  dt_minute :: nat
  dt_second :: nat
  tzinfo :: "int option"

record episode =
  rss_author :: "string list option"
  rss_category :: "category_dict list option"
  rss_comments :: "string option"
  rss_description :: "string option"
  rss_content :: "content_dict option"
  rss_enclosure :: "enclosure_dict option"
  rss_guid :: "string option"
  rss_link :: "string option"
  rss_pubDate :: "datetime option"
  rss_source :: "string option"
  rss_title :: "string option"
  itunes_author_f :: "string option"
  itunes_block_f :: "bool option"
  itunes_image_f :: "string option"
  itunes_duration_f :: "string option"
  itunes_explicit_f :: "string option"
  itunes_is_closed_captioned_f :: "bool option"
  itunes_order_f :: "int option"
  itunes_subtitle_f :: "string option"
  itunes_summary_f :: "string option"

text \<open>\<^verbatim>\<open>BaseEpisode.__init__\<close>\<close>

definition init_episode :: episode where
  "init_episode = \<lparr> rss_author = None, rss_category = None, rss_comments = None,
     rss_description = None, rss_content = None, rss_enclosure = None, rss_guid = None,
     rss_link = None, rss_pubDate = None, rss_source = None, rss_title = None,
     itunes_author_f = None, itunes_block_f = None, itunes_image_f = None,
     itunes_duration_f = None, itunes_explicit_f = None,
     itunes_is_closed_captioned_f = None, itunes_order_f = None,
     itunes_subtitle_f = None, itunes_summary_f = None \<rparr>"

subsection \<open>Truthiness\<close>

text \<open>
  \<^verbatim>\<open>if x:\<close> holds for a string that is neither \<^verbatim>\<open>None\<close> nor empty, and for every
  dictionary with a key and every \<^verbatim>\<open>datetime\<close>.
\<close>

definition truthy :: "string option \<Rightarrow> bool" where
  "truthy x = (case x of None \<Rightarrow> False | Some s \<Rightarrow> s \<noteq> [])"

subsection \<open>The element tree\<close>

text \<open>
  An \<^verbatim>\<open>lxml.etree\<close> element: tag, attributes in the order they were assigned, text and
  children. \<^verbatim>\<open>etree.CDATA\<close> text is kept apart from plain text. \<open>formatRFC2822\<close>
  of \<open>feedgen.util\<close> is not among the sources: the text it makes of a \<^verbatim>\<open>datetime\<close>
  is kept as \<open>RFC2822\<close> of that \<^verbatim>\<open>datetime\<close>.
\<close>

datatype xml_text = Plain string | CDATA string | RFC2822 datetime

datatype element =
  Element (el_tag: string) (el_attrib: "(string \<times> string) list")
    (el_text: "xml_text option") (el_children: "element list")

definition CONTENT_NS :: string where
  "CONTENT_NS = ''http://purl.org/rss/1.0/modules/content/''"

definition ITUNES_NS :: string where
  "ITUNES_NS = ''http://www.itunes.com/dtds/podcast-1.0.dtd''"

text \<open>\<^verbatim>\<open>'{%s}name' % ns\<close>\<close>

definition qname :: "string \<Rightarrow> string \<Rightarrow> string" where
  "qname ns name = ''{'' @ ns @ ''}'' @ name"

text \<open>A child with text only, as \<^verbatim>\<open>SubElement(entry, t); child.text = s\<close> makes it.\<close>

definition text_element :: "string \<Rightarrow> string \<Rightarrow> element" where
  "text_element t s = Element t [] (Some (Plain s)) []"

definition opt_text_element :: "string \<Rightarrow> string option \<Rightarrow> element list" where
  "opt_text_element t x = (case x of Some s \<Rightarrow> (if s \<noteq> [] then [text_element t s] else [])
                                    | None \<Rightarrow> [])"

definition yes_no :: "bool \<Rightarrow> string" where
  "yes_no b = (if b then ''yes'' else ''no'')"

subsection \<open>Rendering\<close>

text \<open>Lines 66 to 78: the description and content children.\<close>

definition description_elements :: "episode \<Rightarrow> element list" where
  "description_elements e =
     (if truthy (rss_description e) \<and> rss_content e \<noteq> None then
        [text_element ''description'' (the (rss_description e)),
         Element (qname CONTENT_NS ''encoded'') []
           (Some (if (case content_type (the (rss_content e)) of Some t \<Rightarrow> t | None \<Rightarrow> '''')
                       = ''CDATA''
                  then CDATA (content_text (the (rss_content e)))
                  else Plain (content_text (the (rss_content e))))) []]
      else if truthy (rss_description e) then
        [text_element ''description'' (the (rss_description e))]
      else if rss_content e \<noteq> None then
        [text_element ''description'' (content_text (the (rss_content e)))]
      else [])"

definition author_elements :: "episode \<Rightarrow> element list" where
  "author_elements e =
     map (text_element ''author'') (case rss_author e of None \<Rightarrow> [] | Some as \<Rightarrow> as)"

definition guid_elements :: "episode \<Rightarrow> element list" where
  "guid_elements e =
     (case rss_guid e of
        Some g \<Rightarrow> (if g \<noteq> [] then [Element ''guid'' [(''isPermaLink'', ''false'')] (Some (Plain g)) []]
                   else [])
      | None \<Rightarrow> [])"

text \<open>\<^verbatim>\<open>cat.get('domain')\<close> is false for a missing and for an empty domain.\<close>

definition category_element :: "category_dict \<Rightarrow> element" where
  "category_element cat =
     Element ''category''
       (case cat_domain cat of Some d \<Rightarrow> (if d \<noteq> [] then [(''domain'', d)] else []) | None \<Rightarrow> [])
       (Some (Plain (cat_value cat))) []"

definition category_elements :: "episode \<Rightarrow> element list" where
  "category_elements e =
     map category_element (case rss_category e of None \<Rightarrow> [] | Some cs \<Rightarrow> cs)"

text \<open>
  Lines 94 to 98. An attribute of an lxml element takes a string only: assigning
  \<^verbatim>\<open>None\<close> raises \<^verbatim>\<open>TypeError\<close>, for \<open>length\<close> before \<open>type\<close>.
\<close>

definition enclosure_elements :: "episode \<Rightarrow> error + element list" where
  "enclosure_elements e =
     (case rss_enclosure e of
        None \<Rightarrow> Inr []
      | Some enc \<Rightarrow>
          (case enc_length enc of
             None \<Rightarrow> Inl (TypeError ''Argument must be bytes or unicode, got 'NoneType' '')
           | Some l \<Rightarrow>
               (case enc_type enc of
                  None \<Rightarrow> Inl (TypeError ''Argument must be bytes or unicode, got 'NoneType' '')
                | Some t \<Rightarrow>
                    Inr [Element ''enclosure''
                           [(''url'', enc_url enc), (''length'', l), (''type'', t)] None []])))"

text \<open>Lines 99 to 101: a \<^verbatim>\<open>datetime\<close> is always true.\<close>

definition pubDate_elements :: "episode \<Rightarrow> element list" where
  "pubDate_elements e =
     (case rss_pubDate e of None \<Rightarrow> []
      | Some d \<Rightarrow> [Element ''pubDate'' [] (Some (RFC2822 d)) []])"

text \<open>Lines 103 to 140: the iTunes children.\<close>

definition itunes_elements :: "episode \<Rightarrow> element list" where
  "itunes_elements e =
     opt_text_element (qname ITUNES_NS ''author'') (itunes_author_f e)
     @ (case itunes_block_f e of None \<Rightarrow> []
        | Some b \<Rightarrow> [text_element (qname ITUNES_NS ''block'') (yes_no b)])
     @ (case itunes_image_f e of
          Some i \<Rightarrow> (if i \<noteq> [] then [Element (qname ITUNES_NS ''image'') [(''href'', i)] None []]
                     else [])
        | None \<Rightarrow> [])
     @ opt_text_element (qname ITUNES_NS ''duration'') (itunes_duration_f e)
     @ (case itunes_explicit_f e of
          Some x \<Rightarrow> (if x \<in> set [''yes'', ''no'', ''clean'']
                     then [text_element (qname ITUNES_NS ''explicit'') x] else [])
        | None \<Rightarrow> [])
     @ (case itunes_is_closed_captioned_f e of None \<Rightarrow> []
        | Some b \<Rightarrow> [text_element (qname ITUNES_NS ''isClosedCaptioned'') (yes_no b)])
     @ (case itunes_order_f e of
          Some n \<Rightarrow> (if n \<ge> 0 then [text_element (qname ITUNES_NS ''order'') (str_int n)] else [])
        | None \<Rightarrow> [])
     @ opt_text_element (qname ITUNES_NS ''subtitle'') (itunes_subtitle_f e)
     @ opt_text_element (qname ITUNES_NS ''summary'') (itunes_summary_f e)"

text \<open>
  \<^verbatim>\<open>rss_entry\<close>: the check of line 58 first, then the children in the order of the
  source. The only later statement that can raise is the enclosure's.
\<close>

definition rss_entry :: "episode \<Rightarrow> error + element" where
  "rss_entry e =
     (if \<not> (truthy (rss_title e) \<or> truthy (rss_description e) \<or> rss_content e \<noteq> None)
      then Inl (ValueError ''Required fields not set'')
      else
        (case enclosure_elements e of
           Inl err \<Rightarrow> Inl err
         | Inr encl \<Rightarrow>
             Inr (Element ''item'' [] None
               (opt_text_element ''title'' (rss_title e)
                @ opt_text_element ''link'' (rss_link e)
                @ description_elements e
                @ author_elements e
                @ guid_elements e
                @ category_elements e
                @ opt_text_element ''comments'' (rss_comments e)
                @ encl
                @ pubDate_elements e
                @ itunes_elements e))))"

subsection \<open>Accessors\<close>

text \<open>
  An accessor takes the episode and its argument (\<open>None\<close> when called without one) and
  returns the episode after the call with what the call returns; an accessor that can
  raise returns the exception in place of the value, beside the episode as the call
  left it.
\<close>

definition title :: "episode \<Rightarrow> string option \<Rightarrow> episode \<times> string option" where
  "title e t = (let e' = (case t of None \<Rightarrow> e | Some v \<Rightarrow> e\<lparr>rss_title := Some v\<rparr>)
                in (e', rss_title e'))"

definition guid :: "episode \<Rightarrow> string option \<Rightarrow> episode \<times> string option" where
  "guid e g = (let e' = (case g of None \<Rightarrow> e | Some v \<Rightarrow> e\<lparr>rss_guid := Some v\<rparr>)
               in (e', rss_guid e'))"

definition link :: "episode \<Rightarrow> string option \<Rightarrow> episode \<times> string option" where
  "link e href = (let e' = (case href of None \<Rightarrow> e | Some v \<Rightarrow> e\<lparr>rss_link := Some v\<rparr>)
                  in (e', rss_link e'))"

definition description :: "episode \<Rightarrow> string option \<Rightarrow> episode \<times> string option" where
  "description e d =
     (let e' = (case d of None \<Rightarrow> e | Some v \<Rightarrow> e\<lparr>rss_description := Some v\<rparr>)
      in (e', rss_description e'))"

definition comments :: "episode \<Rightarrow> string option \<Rightarrow> episode \<times> string option" where
  "comments e c = (let e' = (case c of None \<Rightarrow> e | Some v \<Rightarrow> e\<lparr>rss_comments := Some v\<rparr>)
                   in (e', rss_comments e'))"

text \<open>\<^verbatim>\<open>content(content, type)\<close>: the key \<open>type\<close> is stored only when a type is given.\<close>

definition content :: "episode \<Rightarrow> string option \<Rightarrow> string option
                         \<Rightarrow> episode \<times> content_dict option" where
  "content e c ty =
     (let e' = (case c of None \<Rightarrow> e
                | Some v \<Rightarrow> e\<lparr>rss_content := Some \<lparr>content_text = v, content_type = ty\<rparr>\<rparr>)
      in (e', rss_content e'))"

text \<open>\<^verbatim>\<open>enclosure(url, length, type)\<close>: only \<open>url\<close> is tested.\<close>

definition enclosure :: "episode \<Rightarrow> string option \<Rightarrow> string option \<Rightarrow> string option
                           \<Rightarrow> episode \<times> enclosure_dict option" where
  "enclosure e url len ty =
     (let e' = (case url of None \<Rightarrow> e
                | Some u \<Rightarrow> e\<lparr>rss_enclosure :=
                                Some \<lparr>enc_url = u, enc_length = len, enc_type = ty\<rparr>\<rparr>)
      in (e', rss_enclosure e'))"

definition itunes_author :: "episode \<Rightarrow> string option \<Rightarrow> episode \<times> string option" where
  "itunes_author e a =
     (let e' = (case a of None \<Rightarrow> e | Some v \<Rightarrow> e\<lparr>itunes_author_f := Some v\<rparr>)
      in (e', itunes_author_f e'))"

definition itunes_block :: "episode \<Rightarrow> bool option \<Rightarrow> episode \<times> bool option" where
  "itunes_block e b =
     (let e' = (case b of None \<Rightarrow> e | Some v \<Rightarrow> e\<lparr>itunes_block_f := Some v\<rparr>)
      in (e', itunes_block_f e'))"

definition itunes_subtitle :: "episode \<Rightarrow> string option \<Rightarrow> episode \<times> string option" where
  "itunes_subtitle e a =
     (let e' = (case a of None \<Rightarrow> e | Some v \<Rightarrow> e\<lparr>itunes_subtitle_f := Some v\<rparr>)
      in (e', itunes_subtitle_f e'))"

definition itunes_summary :: "episode \<Rightarrow> string option \<Rightarrow> episode \<times> string option" where
  "itunes_summary e a =
     (let e' = (case a of None \<Rightarrow> e | Some v \<Rightarrow> e\<lparr>itunes_summary_f := Some v\<rparr>)
      in (e', itunes_summary_f e'))"

text \<open>\<^verbatim>\<open>itunes_order\<close>, with an integer argument (\<^verbatim>\<open>int(n)\<close> is \<open>n\<close>)\<close>

definition itunes_order :: "episode \<Rightarrow> int option \<Rightarrow> episode \<times> int option" where
  "itunes_order e n =
     (let e' = (case n of None \<Rightarrow> e | Some v \<Rightarrow> e\<lparr>itunes_order_f := Some v\<rparr>)
      in (e', itunes_order_f e'))"

text \<open>\<^verbatim>\<open>itunes_is_closed_captioned\<close>: the argument is a string or a boolean.\<close>

datatype str_or_bool = Str string | Bool bool

definition itunes_is_closed_captioned :: "episode \<Rightarrow> str_or_bool option
                                            \<Rightarrow> episode \<times> bool option" where
  "itunes_is_closed_captioned e a =
     (let e' = (case a of None \<Rightarrow> e
                | Some v \<Rightarrow> e\<lparr>itunes_is_closed_captioned_f :=
                                Some (v = Str ''yes'' \<or> v = Bool True)\<rparr>)
      in (e', itunes_is_closed_captioned_f e'))"

text \<open>\<^verbatim>\<open>itunes_image\<close>, lines 391 to 396\<close>

definition itunes_image :: "episode \<Rightarrow> string option \<Rightarrow> episode \<times> (error + string option)" where
  "itunes_image e img =
     (case img of
        None \<Rightarrow> (e, Inr (itunes_image_f e))
      | Some v \<Rightarrow>
          (if \<not> endswith_any (lower v) [''.jpg'', ''.jpeg'', ''.png'']
           then (e, Inl (ValueError (''Image filename must end with png or jpg, not .''
                                      @ split_last CHR ''.'' v)))
           else (e\<lparr>itunes_image_f := Some v\<rparr>, Inr (Some v))))"

text \<open>\<^verbatim>\<open>itunes_explicit\<close>, lines 439 to 443\<close>

definition itunes_explicit :: "episode \<Rightarrow> string option \<Rightarrow> episode \<times> (error + string option)" where
  "itunes_explicit e x =
     (case x of
        None \<Rightarrow> (e, Inr (itunes_explicit_f e))
      | Some v \<Rightarrow>
          (if v \<notin> set ['''', ''yes'', ''no'', ''clean'']
           then (e, Inl (ValueError (''Invalid value '' @ [CHR 0x22] @ v @ [CHR 0x22]
                                      @ '' for explicit tag'')))
           else (e\<lparr>itunes_explicit_f := Some v\<rparr>, Inr (Some v))))"

text \<open>
  \<^verbatim>\<open>itunes_duration\<close>, lines 413 to 419. The argument is a string or an integer and
  is stringified. The \<^verbatim>\<open>ValueError\<close> of line 417 is built and dropped, so the test
  of lines 415 and 416 decides nothing. Line 419 returns \<^verbatim>\<open>self.itunes_duration\<close>,
  the bound method, where the other accessors return the field.
\<close>

datatype str_or_int = SStr string | SInt int

definition str_of :: "str_or_int \<Rightarrow> string" where
  "str_of v = (case v of SStr s \<Rightarrow> s | SInt i \<Rightarrow> str_int i)"

datatype 'a returned = Value 'a | BoundMethod string

definition itunes_duration :: "episode \<Rightarrow> str_or_int option
                                 \<Rightarrow> episode \<times> string option returned" where
  "itunes_duration e d =
     (let e' = (case d of None \<Rightarrow> e
                | Some v \<Rightarrow> e\<lparr>itunes_duration_f := Some (str_of v)\<rparr>)
      in (e', BoundMethod ''itunes_duration''))"

subsection \<open>Authors and categories\<close>

text \<open>
  A dictionary passed by the caller is an association list; the argument of
  \<^verbatim>\<open>author\<close> and \<^verbatim>\<open>category\<close> is one dictionary or a list of them.
\<close>

type_synonym dict = "(string \<times> string) list"

datatype dict_arg = Dict dict | DictList "dict list"

definition keys :: "dict \<Rightarrow> string list" where
  "keys d = map fst d"

text \<open>\<^verbatim>\<open>d[k]\<close>\<close>

definition getitem :: "dict \<Rightarrow> string \<Rightarrow> error + string" where
  "getitem d k = (case map_of d k of None \<Rightarrow> Inl (KeyError k) | Some v \<Rightarrow> Inr v)"

text \<open>\<^verbatim>\<open>if d.get(k):\<close>\<close>

definition get_truthy :: "dict \<Rightarrow> string \<Rightarrow> bool" where
  "get_truthy d k = truthy (map_of d k)"

text \<open>
  Modelled from the spec: \<open>ensure_format\<close> of \<open>feedgen.util\<close>, which is not among the
  sources. Each record is validated against a required-field set and an optional-field
  set (here \<open>allowed\<close> holds both); a single record is taken as a list of one record and
  an empty argument gives no record.
\<close>

fun check_format :: "dict list \<Rightarrow> string list \<Rightarrow> string list \<Rightarrow> error option" where
  "check_format [] allowed required = None"
| "check_format (d # ds) allowed required =
     (if \<not> set (keys d) \<subseteq> set allowed then Some (ValueError ''Data contains invalid keys'')
      else if \<not> set required \<subseteq> set (keys d)
      then Some (ValueError ''Data contains not all required keys'')
      else check_format ds allowed required)"

definition ensure_format :: "dict_arg \<Rightarrow> string list \<Rightarrow> string list \<Rightarrow> error + dict list" where
  "ensure_format val allowed required =
     (if val = Dict [] \<or> val = DictList [] then Inr []
      else (let elems = (case val of Dict d \<Rightarrow> [d] | DictList ds \<Rightarrow> ds)
            in case check_format elems allowed required of
                 Some err \<Rightarrow> Inl err | None \<Rightarrow> Inr elems))"

text \<open>\<^verbatim>\<open>['%s (%s)' % (a['email'], a['name']) for a in authors]\<close>\<close>

definition format_author :: "dict \<Rightarrow> error + string" where
  "format_author a =
     (case getitem a ''email'' of
        Inl err \<Rightarrow> Inl err
      | Inr email \<Rightarrow>
          (case getitem a ''name'' of
             Inl err \<Rightarrow> Inl err
           | Inr name \<Rightarrow> Inr (email @ '' ('' @ name @ '')'')))"

fun format_authors :: "dict list \<Rightarrow> error + string list" where
  "format_authors [] = Inr []"
| "format_authors (a # as) =
     (case format_author a of
        Inl err \<Rightarrow> Inl err
      | Inr s \<Rightarrow> (case format_authors as of Inl err \<Rightarrow> Inl err | Inr ss \<Rightarrow> Inr (s # ss)))"

text \<open>
  \<^verbatim>\<open>author(author, replace, **kwargs)\<close>, lines 199 to 207. The list is emptied
  (line 203) before \<open>ensure_format\<close> is called.
\<close>

definition author :: "episode \<Rightarrow> dict_arg option \<Rightarrow> bool \<Rightarrow> dict
                        \<Rightarrow> episode \<times> (error + string list option)" where
  "author e a replace kwargs =
     (let a' = (if a = None \<and> kwargs \<noteq> [] then Some (Dict kwargs) else a)
      in case a' of
           None \<Rightarrow> (e, Inr (rss_author e))
         | Some v \<Rightarrow>
             (let e1 = (if replace \<or> rss_author e = None then e\<lparr>rss_author := Some []\<rparr> else e)
              in case ensure_format v [''name'', ''email''] [''email''] of
                   Inl err \<Rightarrow> (e1, Inl err)
                 | Inr authors \<Rightarrow>
                     (case format_authors authors of
                        Inl err \<Rightarrow> (e1, Inl err)
                      | Inr strs \<Rightarrow>
                          (let e2 = e1\<lparr>rss_author := Some (the (rss_author e1) @ strs)\<rparr>
                           in (e2, Inr (rss_author e2))))))"

text \<open>The body of the loop of lines 276 to 281, for one category.\<close>

definition rss_cat :: "dict \<Rightarrow> error + category_dict" where
  "rss_cat cat =
     (case (if get_truthy cat ''label'' then getitem cat ''label'' else getitem cat ''term'') of
        Inl err \<Rightarrow> Inl err
      | Inr v \<Rightarrow> Inr \<lparr>cat_value = v,
                      cat_domain = (if get_truthy cat ''scheme'' then map_of cat ''scheme''
                                    else None)\<rparr>)"

fun category_loop :: "episode \<Rightarrow> dict list \<Rightarrow> episode \<times> error option" where
  "category_loop e [] = (e, None)"
| "category_loop e (cat # cats) =
     (case rss_cat cat of
        Inl err \<Rightarrow> (e, Some err)
      | Inr c \<Rightarrow> category_loop (e\<lparr>rss_category := Some (the (rss_category e) @ [c])\<rparr>) cats)"

definition category :: "episode \<Rightarrow> dict_arg option \<Rightarrow> bool \<Rightarrow> dict
                          \<Rightarrow> episode \<times> (error + category_dict list option)" where
  "category e c replace kwargs =
     (let c' = (if c = None \<and> kwargs \<noteq> [] then Some (Dict kwargs) else c)
      in case c' of
           None \<Rightarrow> (e, Inr (rss_category e))
         | Some v \<Rightarrow>
             (let e1 = (if replace \<or> rss_category e = None then e\<lparr>rss_category := Some []\<rparr>
                        else e);
                  cats = (case v of Dict d \<Rightarrow> [d] | DictList ds \<Rightarrow> ds)
              in case category_loop e1 cats of
                   (e2, Some err) \<Rightarrow> (e2, Inl err)
                 | (e2, None) \<Rightarrow> (e2, Inr (rss_category e2))))"

subsection \<open>The publication date\<close>

text \<open>
  The argument of \<^verbatim>\<open>published\<close>: a string, a \<^verbatim>\<open>datetime\<close> or a value of another
  type. \<open>dateutil.parser.parse\<close> is a parameter: it gives a \<^verbatim>\<open>datetime\<close> or raises.
\<close>

datatype pub_arg = PubStr string | PubDatetime datetime | PubOther

definition published :: "(string \<Rightarrow> error + datetime) \<Rightarrow> episode \<Rightarrow> pub_arg option
                           \<Rightarrow> episode \<times> (error + datetime option)" where
  "published parse e p =
     (case p of
        None \<Rightarrow> (e, Inr (rss_pubDate e))
      | Some v \<Rightarrow>
          (case (case v of PubStr s \<Rightarrow> (case parse s of Inl err \<Rightarrow> Inl err
                                                        | Inr d \<Rightarrow> Inr (PubDatetime d))
                          | _ \<Rightarrow> Inr v) of
             Inl err \<Rightarrow> (e, Inl err)
           | Inr (PubDatetime d) \<Rightarrow>
               (if tzinfo d = None
                then (e, Inl (ValueError ''Datetime object has no timezone info''))
                else (e\<lparr>rss_pubDate := Some d\<rparr>, Inr (Some d)))
           | Inr _ \<Rightarrow> (e, Inl (ValueError ''Invalid datetime format''))))"

definition pubdate :: "(string \<Rightarrow> error + datetime) \<Rightarrow> episode \<Rightarrow> pub_arg option
                         \<Rightarrow> episode \<times> (error + datetime option)" where
  "pubdate parse e p = published parse e p"

text \<open>
  What \<open>dateutil.parser.parse\<close> does on an ISO 8601 timestamp
  \<^verbatim>\<open>YYYY-MM-DDTHH:MM:SS\<close> with or without an offset \<^verbatim>\<open>+HH:MM\<close> or \<^verbatim>\<open>-HH:MM\<close>:
  the offset becomes \<^verbatim>\<open>tzinfo\<close>, and without one \<^verbatim>\<open>tzinfo\<close> is \<^verbatim>\<open>None\<close>. It
  stands for the parser on these strings only; the strings it rejects here may have
  another reading in the library.
\<close>

definition digit_val :: "char \<Rightarrow> nat option" where
  "digit_val c = map_of (zip ''0123456789'' [0, 1, 2, 3, 4, 5, 6, 7, 8, 9]) c"

fun digits_val :: "nat \<Rightarrow> string \<Rightarrow> nat option" where
  "digits_val acc [] = Some acc"
| "digits_val acc (c # cs) =
     (case digit_val c of None \<Rightarrow> None | Some d \<Rightarrow> digits_val (10 * acc + d) cs)"

definition field :: "string \<Rightarrow> nat \<Rightarrow> nat \<Rightarrow> nat option" where
  "field s i n = digits_val 0 (take n (drop i s))"

definition iso_offset :: "string \<Rightarrow> int option option" where
  "iso_offset s =
     (if s = [] then Some None
      else if length s = 6 \<and> s ! 0 \<in> set ''+-'' \<and> s ! 3 = CHR '':'' then
        (case (field s 1 2, field s 4 2) of
           (Some h, Some m) \<Rightarrow>
             (if h \<le> 23 \<and> m \<le> 59
              then Some (Some ((if s ! 0 = CHR ''-'' then - 1 else 1) * int (60 * h + m)))
              else None)
         | _ \<Rightarrow> None)
      else None)"

definition iso_parse :: "string \<Rightarrow> error + datetime" where
  "iso_parse s =
     (if 19 \<le> length s \<and> s ! 4 = CHR ''-'' \<and> s ! 7 = CHR ''-'' \<and> s ! 10 = CHR ''T''
         \<and> s ! 13 = CHR '':'' \<and> s ! 16 = CHR '':'' then
        (case (field s 0 4, field s 5 2, field s 8 2, field s 11 2, field s 14 2, field s 17 2,
               iso_offset (drop 19 s)) of
           (Some y, Some mo, Some d, Some h, Some mi, Some sec, Some tz) \<Rightarrow>
             (if 1 \<le> y \<and> 1 \<le> mo \<and> mo \<le> 12 \<and> 1 \<le> d \<and> d \<le> 31 \<and> h \<le> 23 \<and> mi \<le> 59 \<and> sec \<le> 59
              then Inr \<lparr>dt_year = y, dt_month = mo, dt_day = d, dt_hour = h, dt_minute = mi,
                        dt_second = sec, tzinfo = tz\<rparr>
              else Inl (ValueError ''Unknown string format''))
         | _ \<Rightarrow> Inl (ValueError ''Unknown string format''))
      else Inl (ValueError ''Unknown string format''))"

subsection \<open>Sequences of calls\<close>

text \<open>
  A caller sets fields through the accessors, any number of times; an exception leaves
  the episode as the accessor left it and the caller goes on.
\<close>

datatype call =
    Title "string option"
  | Guid "string option"
  | Author "dict_arg option" bool dict
  | Content "string option" "string option"
  | Link "string option"
  | Description "string option"
  | Category "dict_arg option" bool dict
  | Published "pub_arg option"
  | Pubdate "pub_arg option"
  | Comments "string option"
  | Enclosure "string option" "string option" "string option"
  | ItunesAuthor "string option"
  | ItunesBlock "bool option"
  | ItunesImage "string option"
  | ItunesDuration "str_or_int option"
  | ItunesExplicit "string option"
  | ItunesIsClosedCaptioned "str_or_bool option"
  | ItunesOrder "int option"
  | ItunesSubtitle "string option"
  | ItunesSummary "string option"

fun step :: "(string \<Rightarrow> error + datetime) \<Rightarrow> episode \<Rightarrow> call \<Rightarrow> episode" where
  "step parse e (Title a) = fst (title e a)"
| "step parse e (Guid a) = fst (guid e a)"
| "step parse e (Author a r k) = fst (author e a r k)"
| "step parse e (Content a t) = fst (content e a t)"
| "step parse e (Link a) = fst (link e a)"
| "step parse e (Description a) = fst (description e a)"
| "step parse e (Category a r k) = fst (category e a r k)"
| "step parse e (Published a) = fst (published parse e a)"
| "step parse e (Pubdate a) = fst (pubdate parse e a)"
| "step parse e (Comments a) = fst (comments e a)"
| "step parse e (Enclosure u l t) = fst (enclosure e u l t)"
| "step parse e (ItunesAuthor a) = fst (itunes_author e a)"
| "step parse e (ItunesBlock a) = fst (itunes_block e a)"
| "step parse e (ItunesImage a) = fst (itunes_image e a)"
| "step parse e (ItunesDuration a) = fst (itunes_duration e a)"
| "step parse e (ItunesExplicit a) = fst (itunes_explicit e a)"
| "step parse e (ItunesIsClosedCaptioned a) = fst (itunes_is_closed_captioned e a)"
| "step parse e (ItunesOrder a) = fst (itunes_order e a)"
| "step parse e (ItunesSubtitle a) = fst (itunes_subtitle e a)"
| "step parse e (ItunesSummary a) = fst (itunes_summary e a)"

fun run :: "(string \<Rightarrow> error + datetime) \<Rightarrow> episode \<Rightarrow> call list \<Rightarrow> episode" where
  "run parse e [] = e"
| "run parse e (c # cs) = run parse (step parse e c) cs"

section \<open>Media (src/feedgen/media.py)\<close>

subsection \<open>More of Python's strings and numbers\<close>

text \<open>\<^verbatim>\<open>str.strip()\<close> removes the white space of ASCII at both ends.\<close>

definition whitespace :: string where
  "whitespace = [CHR 0x09, CHR 0x0A, CHR 0x0B, CHR 0x0C, CHR 0x0D,
                 CHR 0x1C, CHR 0x1D, CHR 0x1E, CHR 0x1F, CHR 0x20]"

definition strip :: "string \<Rightarrow> string" where
  "strip s = rstrip whitespace (lstrip whitespace s)"

text \<open>\<^verbatim>\<open>s.replace(" ", "")\<close>\<close>

definition remove_spaces :: "string \<Rightarrow> string" where
  "remove_spaces s = filter (\<lambda>c. c \<noteq> CHR 0x20) s"

text \<open>
  The digits of a Python numeric literal: digits with single underscores between them.
  The flag says that the last character was a digit.
\<close>

fun digitpart :: "nat \<Rightarrow> bool \<Rightarrow> string \<Rightarrow> nat option" where
  "digitpart acc ld [] = (if ld then Some acc else None)"
| "digitpart acc ld (c # cs) =
     (case digit_val c of
        Some d \<Rightarrow> digitpart (10 * acc + d) True cs
      | None \<Rightarrow> (if c = CHR ''_'' \<and> ld then digitpart acc False cs else None))"

text \<open>\<^verbatim>\<open>repr(s)\<close> of a string without quotes or escapes in it\<close>

definition repr :: "string \<Rightarrow> string" where
  "repr s = [CHR 0x27] @ s @ [CHR 0x27]"

text \<open>An optional sign in front: the sign and the rest.\<close>

definition split_sign :: "string \<Rightarrow> int \<times> string" where
  "split_sign s =
     (case s of
        [] \<Rightarrow> (1, [])
      | c # cs \<Rightarrow> (if c = CHR ''-'' then (- 1, cs) else if c = CHR ''+'' then (1, cs) else (1, s)))"

text \<open>\<^verbatim>\<open>int(s)\<close> for a string, in base ten\<close>

definition int_of_str :: "string \<Rightarrow> error + int" where
  "int_of_str s =
     (let (sg, r) = split_sign (strip s)
      in case digitpart 0 False r of
           None \<Rightarrow> Inl (ValueError (''invalid literal for int() with base 10: '' @ repr s))
         | Some n \<Rightarrow> Inr (sg * int n))"

text \<open>
  A \<^verbatim>\<open>float\<close>. A finite one is the rational number its literal denotes: the model
  does not round to 53 bits, and agrees with Python wherever the numbers met are
  representable, as the integers below \<open>2 ^ 53\<close> are.
\<close>

datatype pyfloat = Finite rat | Infinite | NaN

text \<open>\<^verbatim>\<open>[digitpart] "." digitpart | digitpart ["."]\<close>\<close>

definition mantissa :: "string \<Rightarrow> rat option" where
  "mantissa s =
     (if CHR ''.'' \<in> set s then
        (let ip = takeWhile (\<lambda>c. c \<noteq> CHR ''.'') s;
             fp = drop 1 (dropWhile (\<lambda>c. c \<noteq> CHR ''.'') s)
         in if ip = [] \<and> fp = [] then None
            else (case (if ip = [] then Some 0 else digitpart 0 False ip,
                        if fp = [] then Some 0 else digitpart 0 False fp) of
                    (Some i, Some f) \<Rightarrow>
                      Some (of_nat i
                            + of_nat f / 10 ^ length (filter (\<lambda>c. c \<noteq> CHR ''_'') fp))
                  | _ \<Rightarrow> None))
      else map_option of_nat (digitpart 0 False s))"

text \<open>\<^verbatim>\<open>float(s)\<close> for a string in lower case\<close>

definition float_of_str :: "string \<Rightarrow> error + pyfloat" where
  "float_of_str s =
     (let (sg, r) = split_sign (strip s)
      in if r = ''inf'' \<or> r = ''infinity'' then Inr Infinite
         else if r = ''nan'' then Inr NaN
         else
           (let m = takeWhile (\<lambda>c. c \<noteq> CHR ''e'') r;
                x = drop 1 (dropWhile (\<lambda>c. c \<noteq> CHR ''e'') r)
            in case mantissa m of
                 None \<Rightarrow> Inl (ValueError (''could not convert string to float: '' @ repr s))
               | Some q \<Rightarrow>
                   (if CHR ''e'' \<notin> set r then Inr (Finite (of_int sg * q))
                    else (let (xs, xr) = split_sign x
                          in case digitpart 0 False xr of
                               None \<Rightarrow>
                                 Inl (ValueError (''could not convert string to float: '' @ repr s))
                             | Some k \<Rightarrow>
                                 Inr (Finite (of_int sg * q *
                                        (if xs < 0 then 1 / 10 ^ k else 10 ^ k)))))))"

text \<open>\<^verbatim>\<open>round(x)\<close> of Python 3: to the nearest integer, a tie to the even one\<close>

definition py_round :: "rat \<Rightarrow> int" where
  "py_round q =
     (let f = \<lfloor>q\<rfloor>; d = q - of_int f
      in if d < 1 / 2 then f else if 1 / 2 < d then f + 1 else if even f then f else f + 1)"

subsection \<open>urlparse\<close>

text \<open>
  \<^verbatim>\<open>urlparse\<close> of the standard library (\<open>urllib.parse\<close> of CPython 3.11): leading
  control characters and spaces are dropped, tabs and line ends removed, then the scheme,
  the network location, the fragment, the query and the parameters are cut off; what is
  left is the path. Of its checks the one for unmatched brackets in the network location
  is modelled.
\<close>

record parse_result =
  scheme :: string
  netloc :: string
  path :: string
  params :: string
  query :: string
  fragment :: string

definition scheme_chars :: string where
  "scheme_chars = ascii_lowercase @ ascii_uppercase @ ''0123456789+-.''"

definition uses_params :: "string list" where
  "uses_params = ['''', ''ftp'', ''hdl'', ''prospero'', ''http'', ''imap'', ''https'', ''shttp'',
                  ''rtsp'', ''rtspu'', ''sip'', ''sips'', ''mms'', ''sftp'', ''tel'']"

definition c0_control_or_space :: string where
  "c0_control_or_space = map char_of [0 ..< (33 :: nat)]"

definition unsafe_url_bytes :: string where
  "unsafe_url_bytes = [CHR 0x09, CHR 0x0D, CHR 0x0A]"

text \<open>\<^verbatim>\<open>s.split(c, 1)\<close> when \<open>c\<close> is in \<open>s\<close>: before and after the first \<open>c\<close>\<close>

definition split_first :: "char \<Rightarrow> string \<Rightarrow> string \<times> string" where
  "split_first c s = (takeWhile (\<lambda>x. x \<noteq> c) s, drop 1 (dropWhile (\<lambda>x. x \<noteq> c) s))"

definition split_scheme :: "string \<Rightarrow> string \<times> string" where
  "split_scheme url =
     (let pre = takeWhile (\<lambda>x. x \<noteq> CHR '':'') url
      in if CHR '':'' \<in> set url \<and> pre \<noteq> []
            \<and> hd pre \<in> set (ascii_lowercase @ ascii_uppercase)
            \<and> list_all (\<lambda>c. c \<in> set scheme_chars) pre
         then (lower pre, drop (length pre + 1) url)
         else ('''', url))"

definition splitnetloc :: "string \<Rightarrow> string \<times> string" where
  "splitnetloc url =
     (if take 2 url = ''//''
      then (takeWhile (\<lambda>c. c \<notin> set ''/?#'') (drop 2 url),
            dropWhile (\<lambda>c. c \<notin> set ''/?#'') (drop 2 url))
      else ('''', url))"

definition splitparams :: "string \<Rightarrow> string \<times> string" where
  "splitparams url =
     (let seg = split_last CHR ''/'' url;
          front = take (length url - length seg) url
      in if CHR '';'' \<in> set seg
         then (front @ takeWhile (\<lambda>c. c \<noteq> CHR '';'') seg,
               drop 1 (dropWhile (\<lambda>c. c \<noteq> CHR '';'') seg))
         else (url, ''''))"

definition urlparse :: "string \<Rightarrow> error + parse_result" where
  "urlparse url0 =
     (let url1 = filter (\<lambda>c. c \<notin> set unsafe_url_bytes) (lstrip c0_control_or_space url0);
          (sch, url2) = split_scheme url1;
          (nl, url3) = splitnetloc url2
      in if (CHR ''['' \<in> set nl \<and> CHR '']'' \<notin> set nl) \<or> (CHR '']'' \<in> set nl \<and> CHR ''['' \<notin> set nl)
         then Inl (ValueError ''Invalid IPv6 URL'')
         else
           (let (url4, frag) = (if CHR ''#'' \<in> set url3 then split_first CHR ''#'' url3
                                else (url3, ''''));
                (url5, qu) = (if CHR ''?'' \<in> set url4 then split_first CHR ''?'' url4
                              else (url4, ''''));
                (url6, par) = (if sch \<in> set uses_params \<and> CHR '';'' \<in> set url5
                               then splitparams url5 else (url5, ''''))
            in Inr \<lparr>scheme = sch, netloc = nl, path = url6, params = par, query = qu,
                      fragment = frag\<rparr>))"

subsection \<open>The media object\<close>

definition file_types :: "(string \<times> string) list" where
  "file_types = [(''m4a'', ''audio/x-m4a''), (''mp3'', ''audio/mpeg''),
                 (''mov'', ''video/quicktime''), (''mp4'', ''video/mp4''),
                 (''m4v'', ''video/x-m4v''), (''pdf'', ''application/pdf''),
                 (''epub'', ''document/x-epub'')]"

record media =
  url_f :: "string option"
  size_f :: "int option"
  type_f :: "string option"

text \<open>A warning issued through \<^verbatim>\<open>warnings.warn\<close>: its category and message.\<close>

datatype warning = NotSupportedByItunesWarning string | UserWarning string

text \<open>
  A setter returns the warnings it issued, in order, and the object after the assignment
  or the exception raised. The setters assign last, so an exception leaves the object
  as it was.
\<close>

text \<open>The \<open>url\<close> setter, lines 81 to 92\<close>

definition set_url :: "media \<Rightarrow> string option \<Rightarrow> warning list \<times> (error + media)" where
  "set_url m url =
     (if \<not> truthy url then ([], Inl (ValueError ''url cannot be empty or None''))
      else
        (case urlparse (the url) of
           Inl err \<Rightarrow> ([], Inl err)
         | Inr parsed_url \<Rightarrow>
             (let file_extension = lower (split_last CHR ''.'' (path parsed_url))
              in ((if file_extension \<notin> set (map fst file_types)
                   then [NotSupportedByItunesWarning
                           (''File extension '' @ file_extension
                            @ '' is not supported by iTunes.'')]
                   else [])
                  @ (if scheme parsed_url \<notin> set [''http'', ''https'']
                     then [NotSupportedByItunesWarning
                             (''URL scheme '' @ scheme parsed_url
                              @ '' is not supported by iTunes. Make sure ''
                              @ ''you use absolute URLs and HTTP or HTTPS.'')]
                     else []),
                  Inr (m\<lparr>url_f := url\<rparr>)))))"

text \<open>\<^verbatim>\<open>_str_to_bytes\<close>, lines 141 to 159\<close>

definition units :: "(string \<times> rat) list" where
  "units = [(''b'', 1), (''kb'', 1000), (''kib'', 1024), (''mb'', 1000 ^ 2), (''mib'', 1024 ^ 2),
            (''gb'', 1000 ^ 3), (''gib'', 1024 ^ 3), (''tb'', 1000 ^ 4), (''tib'', 1024 ^ 4)]"

definition str_to_bytes :: "str_or_int \<Rightarrow> error + int" where
  "str_to_bytes size0 =
     (let size1 = remove_spaces (strip (lower (str_of size0)))
      in case float_of_str (rstrip ''bkimgt'' size1) of
           Inl err \<Rightarrow> Inl err
         | Inr number \<Rightarrow>
             (let unit = lstrip ''0123456789.'' size1
              in case map_of units unit of
                   None \<Rightarrow> Inl (ValueError (''The unit '' @ unit @ '' was not recognized.''))
                 | Some u \<Rightarrow>
                     (case number of
                        Finite q \<Rightarrow> Inr (py_round (q * u))
                      | Infinite \<Rightarrow> Inl (OverflowError ''cannot convert float infinity to integer'')
                      | NaN \<Rightarrow> Inl (ValueError ''cannot convert float NaN to integer''))))"

text \<open>
  \<^verbatim>\<open>int(size)\<close> of line 123: \<^verbatim>\<open>None\<close> raises \<^verbatim>\<open>TypeError\<close>, a string that is
  no integer literal raises \<^verbatim>\<open>ValueError\<close>.
\<close>

definition py_int :: "str_or_int option \<Rightarrow> error + int" where
  "py_int v =
     (case v of
        None \<Rightarrow> Inl (TypeError ''int() argument must be a string or a number, not 'NoneType' '')
      | Some (SInt i) \<Rightarrow> Inr i
      | Some (SStr s) \<Rightarrow> int_of_str s)"

text \<open>The \<open>type\<close> setter, lines 179 to 188. The message is not formatted.\<close>

definition set_type :: "media \<Rightarrow> string option \<Rightarrow> warning list \<times> (error + media)" where
  "set_type m ty =
     (if \<not> truthy ty then ([], Inl (ValueError ''Type cannot be empty or None''))
      else
        (let t = lower (strip (the ty))
         in ((if t \<notin> set (map snd file_types)
              then [NotSupportedByItunesWarning ''Media type %s is not supported by iTunes.'']
              else []),
             Inr (m\<lparr>type_f := Some t\<rparr>))))"

text \<open>\<^verbatim>\<open>get_type\<close>, lines 210 to 218: the extension is looked up as it is written.\<close>

definition get_type :: "string \<Rightarrow> error + string" where
  "get_type url =
     (case urlparse url of
        Inl err \<Rightarrow> Inl err
      | Inr parsed_url \<Rightarrow>
          (let file_extension = split_last CHR ''.'' (path parsed_url)
           in case map_of file_types file_extension of
                Some t \<Rightarrow> Inr t
              | None \<Rightarrow>
                  Inl (ValueError
                        (''The file extension '' @ file_extension @ '' was not recognized, which ''
                         @ ''means it's not supported by iTunes. If this is ''
                         @ ''intended, please provide the type yourself so ''
                         @ ''clients can see what type of file it is.''))))"

text \<open>
  The setter runs again only on what \<open>str_to_bytes\<close> returns, which is never negative:
  a negative number has its sign in the string, and then the unit, which starts at the
  first character that is no digit and no dot, is not in the table.
\<close>

lemma digitpart_mantissa_nonneg: "mantissa s = Some q \<Longrightarrow> 0 \<le> q"
  by (auto simp: mantissa_def Let_def split: if_splits option.splits)

lemma set_rstrip: "set (rstrip cs s) \<subseteq> set s"
  using set_dropWhileD [of _ "\<lambda>x. x \<in> set cs" "rev s"] by (auto simp: rstrip_def)

lemma set_lstrip: "set (lstrip cs s) \<subseteq> set s"
  by (auto simp: lstrip_def dest: set_dropWhileD)

lemma set_strip: "set (strip s) \<subseteq> set s"
  unfolding strip_def using set_rstrip set_lstrip by blast

lemma in_lstrip: "x \<in> set s \<Longrightarrow> x \<notin> set cs \<Longrightarrow> x \<in> set (lstrip cs s)"
  unfolding lstrip_def by (induction s) auto

lemma split_sign_neg: "split_sign s = (sg, r) \<Longrightarrow> sg < 0 \<Longrightarrow> CHR ''-'' \<in> set s"
  by (auto simp: split_sign_def split: list.splits if_splits)

lemma split_sign_cases: "split_sign s = (sg, r) \<Longrightarrow> sg = 1 \<or> sg = - 1"
  by (auto simp: split_sign_def split: list.splits if_splits)

lemma float_of_str_neg:
  assumes "float_of_str t = Inr (Finite q)" and "q < 0"
  shows "CHR ''-'' \<in> set t"
proof -
  obtain sg r where sr: "split_sign (strip t) = (sg, r)" by (cases "split_sign (strip t)")
  have "sg < 0"
  proof (rule ccontr)
    assume "\<not> sg < 0"
    with split_sign_cases [OF sr] have s1: "sg = 1" by auto
    from assms(1) sr s1 have "0 \<le> q"
      by (auto simp: float_of_str_def Let_def split: if_splits option.splits prod.splits
               dest: digitpart_mantissa_nonneg)
    with assms(2) show False by simp
  qed
  with split_sign_neg [OF sr] have "CHR ''-'' \<in> set (strip t)" by simp
  with set_strip show ?thesis by blast
qed

lemma units_Some: "map_of units unit = Some u \<Longrightarrow> CHR ''-'' \<notin> set unit \<and> 0 \<le> u"
  by (auto simp: units_def split: if_splits)

lemma py_round_nonneg: "0 \<le> q \<Longrightarrow> 0 \<le> py_round q"
  by (auto simp: py_round_def Let_def)

lemma str_to_bytes_nonneg:
  assumes "str_to_bytes x = Inr r"
  shows "0 \<le> r"
proof -
  define sz where "sz = remove_spaces (strip (lower (str_of x)))"
  from assms obtain q u where
    f: "float_of_str (rstrip ''bkimgt'' sz) = Inr (Finite q)" and
    u: "map_of units (lstrip ''0123456789.'' sz) = Some u" and
    r: "r = py_round (q * u)"
    by (auto simp: str_to_bytes_def Let_def sz_def split: sum.splits option.splits pyfloat.splits)
  have "0 \<le> q"
  proof (rule ccontr)
    assume "\<not> 0 \<le> q"
    then have "CHR ''-'' \<in> set (rstrip ''bkimgt'' sz)" using float_of_str_neg [OF f] by simp
    then have "CHR ''-'' \<in> set sz" using set_rstrip by blast
    then have "CHR ''-'' \<in> set (lstrip ''0123456789.'' sz)" by (rule in_lstrip) simp
    with units_Some [OF u] show False by simp
  qed
  with units_Some [OF u] have "0 \<le> q * u" by simp
  with r show ?thesis by (simp add: py_round_nonneg)
qed

text \<open>
  The \<open>size\<close> setter, lines 121 to 139. The \<^verbatim>\<open>ValueError\<close> handler gets the
  integer when \<^verbatim>\<open>int(size)\<close> has succeeded and the size is negative, the argument
  itself otherwise, and assigns to \<^verbatim>\<open>self.size\<close>, which runs the setter again.
\<close>

function set_size :: "media \<Rightarrow> str_or_int option \<Rightarrow> warning list \<times> (error + media)" where
  "set_size m size0 =
     (case py_int size0 of
        Inr n \<Rightarrow>
          (if n < 0 then
             (case str_to_bytes (SInt n) of
                Inl err \<Rightarrow> ([], Inl err)
              | Inr r \<Rightarrow> set_size m (Some (SInt r)))
           else
             ((if n = 0
               then [UserWarning (''Size is set to 0. This should ONLY be done when ''
                       @ ''there is no possible way to determine the ''
                       @ ''media's size, like if the media is a stream.'')]
               else []),
              Inr (m\<lparr>size_f := Some n\<rparr>)))
      | Inl (ValueError msg) \<Rightarrow>
          (case str_to_bytes (the size0) of
             Inl err \<Rightarrow> ([], Inl err)
           | Inr r \<Rightarrow> set_size m (Some (SInt r)))
      | Inl (TypeError msg) \<Rightarrow>
          (if size0 = None then set_size m (Some (SInt 0)) else ([], Inl (TypeError msg)))
      | Inl err \<Rightarrow> ([], Inl err))"
  by pat_completeness auto

termination set_size
  apply (relation "measure (\<lambda>(m, sz). case sz of None \<Rightarrow> 2
           | Some (SStr s) \<Rightarrow> 1 | Some (SInt n) \<Rightarrow> (if n < 0 then 1 else 0))")
     apply simp
    apply (auto simp: py_int_def split: option.splits str_or_int.splits
                dest: str_to_bytes_nonneg)
  done

declare set_size.simps [simp del]

text \<open>
  \<^verbatim>\<open>Media.__init__(url, size=0, type=None)\<close>, lines 61 to 68: the three setters in
  turn, the first exception ending the construction. The warnings issued so far are
  returned in both cases.
\<close>

definition empty_media :: media where
  "empty_media = \<lparr>url_f = None, size_f = None, type_f = None\<rparr>"

definition Media :: "string option \<Rightarrow> str_or_int option \<Rightarrow> string option
                       \<Rightarrow> warning list \<times> (error + media)" where
  "Media url size0 ty =
     (case set_url empty_media url of
        (w1, Inl err) \<Rightarrow> (w1, Inl err)
      | (w1, Inr m1) \<Rightarrow>
          (case set_size m1 size0 of
             (w2, Inl err) \<Rightarrow> (w1 @ w2, Inl err)
           | (w2, Inr m2) \<Rightarrow>
               (case (if truthy ty then Inr (the ty) else get_type (the url)) of
                  Inl err \<Rightarrow> (w1 @ w2, Inl err)
                | Inr t \<Rightarrow>
                    (case set_type m2 (Some t) of
                       (w3, r) \<Rightarrow> (w1 @ w2 @ w3, r)))))"

section \<open>Properties of the media object\<close>

lemma file_types_keys_lower: "k \<in> set (map fst file_types) \<Longrightarrow> lower k = k"
  by (auto simp: file_types_def lower_def lower_char_def ascii_uppercase_def ascii_lowercase_def)

lemma map_of_file_types_None: "k \<notin> set (map fst file_types) \<Longrightarrow> map_of file_types k = None"
  by (simp add: map_of_eq_None_iff)

lemma set_size_nonneg:
  "0 \<le> n \<Longrightarrow> \<exists>w. set_size m (Some (SInt n)) = (w, Inr (m\<lparr>size_f := Some n\<rparr>))"
  by (subst set_size.simps) (simp add: py_int_def)

text \<open>
  Claim C10. The \<open>url\<close> setter lower-cases the extension before looking it up and
  \<open>get_type\<close> does not. For a URL whose extension is an upper-case or mixed-case
  spelling of a supported one, the setter issues no warning about the extension (and no
  warning at all for an http or https URL), while constructing the media object without a
  type raises the \<^verbatim>\<open>ValueError\<close> of \<open>get_type\<close>. The example is
  \<^verbatim>\<open>http://x.com/a.MP3\<close>.
\<close>

theorem media_type_case_sensitive:
  assumes "urlparse url = Inr p"
    and "ext = split_last CHR ''.'' (path p)"
    and "lower ext \<in> set (map fst file_types)"
    and "ext \<noteq> lower ext"
    and "0 \<le> n"
  shows "NotSupportedByItunesWarning (''File extension '' @ lower ext @ '' is not supported by iTunes.'')
           \<notin> set (fst (set_url m (Some url)))
         \<and> (scheme p \<in> set [''http'', ''https''] \<longrightarrow>
              set_url m (Some url) = ([], Inr (m\<lparr>url_f := Some url\<rparr>)))
         \<and> (\<exists>msg. get_type url = Inl (ValueError msg)
                \<and> snd (Media (Some url) (Some (SInt n)) None) = Inl (ValueError msg))"
proof -
  have ne: "url \<noteq> []"
  proof
    assume "url = []"
    with assms(1) have "path p = []"
      by (auto simp: urlparse_def Let_def lstrip_def split_scheme_def splitnetloc_def
               uses_params_def splitparams_def split_last_def split: if_splits prod.splits)
    with assms(2,3) show False
      by (simp add: split_last_def lower_def file_types_def)
  qed
  have nk: "ext \<notin> set (map fst file_types)"
    using file_types_keys_lower [of ext] assms(4) by auto
  have su: "set_url m' (Some url) =
        ((if scheme p \<notin> set [''http'', ''https'']
          then [NotSupportedByItunesWarning
                  (''URL scheme '' @ scheme p @ '' is not supported by iTunes. Make sure ''
                   @ ''you use absolute URLs and HTTP or HTTPS.'')]
          else []), Inr (m'\<lparr>url_f := Some url\<rparr>))" for m'
    using assms(1,2,3) ne by (simp add: set_url_def truthy_def Let_def)
  have gt: "get_type url = Inl (ValueError
                        (''The file extension '' @ ext @ '' was not recognized, which ''
                         @ ''means it's not supported by iTunes. If this is ''
                         @ ''intended, please provide the type yourself so ''
                         @ ''clients can see what type of file it is.''))"
    using assms(1,2) map_of_file_types_None [OF nk] by (simp add: get_type_def Let_def)
  obtain w where ss: "set_size (empty_media\<lparr>url_f := Some url\<rparr>) (Some (SInt n))
       = (w, Inr (empty_media\<lparr>url_f := Some url, size_f := Some n\<rparr>))"
    using set_size_nonneg [OF assms(5)] by auto
  have "snd (Media (Some url) (Some (SInt n)) None) = Inl (ValueError
                        (''The file extension '' @ ext @ '' was not recognized, which ''
                         @ ''means it's not supported by iTunes. If this is ''
                         @ ''intended, please provide the type yourself so ''
                         @ ''clients can see what type of file it is.''))"
  proof -
    obtain w1 where su1: "set_url empty_media (Some url)
         = (w1, Inr (empty_media\<lparr>url_f := Some url\<rparr>))"
      using su [of empty_media] by simp
    show ?thesis
      by (simp add: Media_def su1 ss gt truthy_def)
  qed
  with gt su [of m] show ?thesis by simp
qed

theorem media_type_case_sensitive_witness:
  "urlparse ''http://x.com/a.MP3'' = Inr \<lparr>scheme = ''http'', netloc = ''x.com'', path = ''/a.MP3'',
       params = [], query = [], fragment = []\<rparr>
   \<and> set_url empty_media (Some ''http://x.com/a.MP3'')
       = ([], Inr (empty_media\<lparr>url_f := Some ''http://x.com/a.MP3''\<rparr>))
   \<and> (\<exists>msg. snd (Media (Some ''http://x.com/a.MP3'') (Some (SInt 0)) None) = Inl (ValueError msg))"
proof -
  have u: "urlparse ''http://x.com/a.MP3'' = Inr \<lparr>scheme = ''http'', netloc = ''x.com'', path = ''/a.MP3'',
       params = [], query = [], fragment = []\<rparr>"
    by code_simp
  have e: "''MP3'' = split_last CHR ''.'' (path \<lparr>scheme = ''http'', netloc = ''x.com'', path = ''/a.MP3'',
       params = [], query = [], fragment = []\<rparr>)"
    by code_simp
  have l: "lower ''MP3'' \<in> set (map fst file_types)" by code_simp
  have d: "''MP3'' \<noteq> lower ''MP3''" by code_simp
  show ?thesis
    using media_type_case_sensitive [OF u e l d, of 0 empty_media] u by auto
qed

section \<open>Properties of the episode\<close>


lemma rss_entry_Inr_children:
  assumes "rss_entry e = Inr item"
  shows "\<exists>encl. enclosure_elements e = Inr encl \<and>
           el_children item =
               opt_text_element ''title'' (rss_title e)
                @ opt_text_element ''link'' (rss_link e)
                @ description_elements e
                @ author_elements e
                @ guid_elements e
                @ category_elements e
                @ opt_text_element ''comments'' (rss_comments e)
                @ encl
                @ pubDate_elements e
                @ itunes_elements e"
  using assms by (auto simp: rss_entry_def split: if_splits sum.splits)


text \<open>The tags of each group of children.\<close>

lemma tags_opt_text_element: "el_tag ` set (opt_text_element t x) \<subseteq> {t}"
  by (auto simp: opt_text_element_def text_element_def split: option.splits)

lemma tags_author_elements: "el_tag ` set (author_elements e) \<subseteq> {''author''}"
  by (auto simp: author_elements_def text_element_def)

lemma tags_guid_elements: "el_tag ` set (guid_elements e) \<subseteq> {''guid''}"
  by (auto simp: guid_elements_def split: option.splits)

lemma tags_category_elements: "el_tag ` set (category_elements e) \<subseteq> {''category''}"
  by (auto simp: category_elements_def category_element_def)

lemma tags_enclosure_elements:
  "enclosure_elements e = Inr encl \<Longrightarrow> el_tag ` set encl \<subseteq> {''enclosure''}"
  by (auto simp: enclosure_elements_def split: option.splits)

lemma tags_pubDate_elements: "el_tag ` set (pubDate_elements e) \<subseteq> {''pubDate''}"
  by (auto simp: pubDate_elements_def split: option.splits)

lemma tags_description_elements:
  "el_tag ` set (description_elements e) \<subseteq> {''description'', qname CONTENT_NS ''encoded''}"
  by (auto simp: description_elements_def text_element_def)

lemma tags_itunes_elements:
  "el_tag ` set (itunes_elements e) \<subseteq> qname ITUNES_NS ` UNIV"
proof -
  have a: "el_tag ` set (opt_text_element (qname ITUNES_NS n) x) \<subseteq> qname ITUNES_NS ` UNIV" for n x
    using tags_opt_text_element [of "qname ITUNES_NS n" x] by blast
  have b: "el_tag ` set (case itunes_block_f e of None \<Rightarrow> []
        | Some b \<Rightarrow> [text_element (qname ITUNES_NS ''block'') (yes_no b)]) \<subseteq> qname ITUNES_NS ` UNIV"
    by (auto simp: text_element_def split: option.splits)
  have c: "el_tag ` set (case itunes_image_f e of
          Some i \<Rightarrow> (if i \<noteq> [] then [Element (qname ITUNES_NS ''image'') [(''href'', i)] None []]
                     else [])
        | None \<Rightarrow> []) \<subseteq> qname ITUNES_NS ` UNIV"
    by (auto split: option.splits)
  have d: "el_tag ` set (case itunes_explicit_f e of
          Some x \<Rightarrow> (if x \<in> set [''yes'', ''no'', ''clean'']
                     then [text_element (qname ITUNES_NS ''explicit'') x] else [])
        | None \<Rightarrow> []) \<subseteq> qname ITUNES_NS ` UNIV"
    by (auto simp: text_element_def split: option.splits)
  have f: "el_tag ` set (case itunes_is_closed_captioned_f e of None \<Rightarrow> []
        | Some b \<Rightarrow> [text_element (qname ITUNES_NS ''isClosedCaptioned'') (yes_no b)])
        \<subseteq> qname ITUNES_NS ` UNIV"
    by (auto simp: text_element_def split: option.splits)
  have g: "el_tag ` set (case itunes_order_f e of
          Some n \<Rightarrow> (if n \<ge> 0 then [text_element (qname ITUNES_NS ''order'') (str_int n)] else [])
        | None \<Rightarrow> []) \<subseteq> qname ITUNES_NS ` UNIV"
    by (auto simp: text_element_def split: option.splits)
  show ?thesis
    unfolding itunes_elements_def set_append image_Un
    using a b c d f g by (intro Un_least)
qed

lemma filter_tags_empty:
  "el_tag ` set xs \<subseteq> S \<Longrightarrow> S \<inter> T = {} \<Longrightarrow> filter (\<lambda>c. el_tag c \<in> T) xs = []"
  by (auto simp: filter_empty_conv)

lemma filter_tags_all:
  "el_tag ` set xs \<subseteq> T \<Longrightarrow> filter (\<lambda>c. el_tag c \<in> T) xs = xs"
  by (auto simp: filter_id_conv)

lemma hd_qname: "hd (qname ns n) = CHR 0x7B"
  by (simp add: qname_def)

lemma nth_qname_ITUNES: "qname ITUNES_NS n ! 8 = CHR ''w''"
  by (simp add: qname_def ITUNES_NS_def)

lemma nth_qname_CONTENT: "qname CONTENT_NS n ! 8 = CHR ''p''"
  by (simp add: qname_def CONTENT_NS_def)

lemma qname_ITUNES_neq_CONTENT: "qname ITUNES_NS n \<noteq> qname CONTENT_NS m"
proof
  assume "qname ITUNES_NS n = qname CONTENT_NS m"
  then have "qname ITUNES_NS n ! 8 = qname CONTENT_NS m ! 8" by simp
  then show False by (simp only: nth_qname_ITUNES nth_qname_CONTENT) simp
qed

lemma qname_neq_plain: "hd t \<noteq> CHR 0x7B \<Longrightarrow> qname ns n \<noteq> t"
  using hd_qname [of ns n] by auto

lemma qname_ITUNES_disjoint_description:
  "qname ITUNES_NS ` UNIV \<inter> {''description'', qname CONTENT_NS ''encoded''} = {}"
proof -
  have a: "qname ITUNES_NS n \<noteq> ''description''" for n
    by (rule qname_neq_plain) simp
  have b: "qname ITUNES_NS n \<noteq> qname CONTENT_NS ''encoded''" for n
    by (rule qname_ITUNES_neq_CONTENT)
  show ?thesis using a b by blast
qed


text \<open>Of the children of a rendered item, only one group has tags in a given set.\<close>

lemma filter_children_description:
  assumes "enclosure_elements e = Inr encl"
  shows "filter (\<lambda>c. el_tag c \<in> {''description'', qname CONTENT_NS ''encoded''})
               (opt_text_element ''title'' (rss_title e)
                @ opt_text_element ''link'' (rss_link e)
                @ description_elements e
                @ author_elements e
                @ guid_elements e
                @ category_elements e
                @ opt_text_element ''comments'' (rss_comments e)
                @ encl
                @ pubDate_elements e
                @ itunes_elements e) = description_elements e"
proof -
  let ?T = "{''description'', qname CONTENT_NS ''encoded''}"
  have 1: "filter (\<lambda>c. el_tag c \<in> ?T) (opt_text_element ''title'' x) = []" for x
    by (rule filter_tags_empty [OF tags_opt_text_element]) (simp add: qname_def)
  have 2: "filter (\<lambda>c. el_tag c \<in> ?T) (opt_text_element ''link'' x) = []" for x
    by (rule filter_tags_empty [OF tags_opt_text_element]) (simp add: qname_def)
  have 3: "filter (\<lambda>c. el_tag c \<in> ?T) (description_elements e) = description_elements e"
    by (rule filter_tags_all [OF tags_description_elements])
  have 4: "filter (\<lambda>c. el_tag c \<in> ?T) (author_elements e) = []"
    by (rule filter_tags_empty [OF tags_author_elements]) (simp add: qname_def)
  have 5: "filter (\<lambda>c. el_tag c \<in> ?T) (guid_elements e) = []"
    by (rule filter_tags_empty [OF tags_guid_elements]) (simp add: qname_def)
  have 6: "filter (\<lambda>c. el_tag c \<in> ?T) (category_elements e) = []"
    by (rule filter_tags_empty [OF tags_category_elements]) (simp add: qname_def)
  have 7: "filter (\<lambda>c. el_tag c \<in> ?T) (opt_text_element ''comments'' x) = []" for x
    by (rule filter_tags_empty [OF tags_opt_text_element]) (simp add: qname_def)
  have 8: "filter (\<lambda>c. el_tag c \<in> ?T) encl = []"
    by (rule filter_tags_empty [OF tags_enclosure_elements [OF assms]]) (simp add: qname_def)
  have 9: "filter (\<lambda>c. el_tag c \<in> ?T) (pubDate_elements e) = []"
    by (rule filter_tags_empty [OF tags_pubDate_elements]) (simp add: qname_def)
  have 10: "filter (\<lambda>c. el_tag c \<in> ?T) (itunes_elements e) = []"
    by (rule filter_tags_empty [OF tags_itunes_elements qname_ITUNES_disjoint_description])
  show ?thesis
    unfolding filter_append 1 2 3 4 5 6 7 8 9 10 by simp
qed





text \<open>
  Claim C2, amended. Of the children of the rendered item, those tagged \<open>description\<close>
  or content \<open>encoded\<close> are: when the description is set and not empty and the content
  is set, a \<open>description\<close> with the description and an \<open>encoded\<close> element with the
  content, as CDATA exactly when the stored type is \<open>CDATA\<close>; when only the description
  is set and not empty, the \<open>description\<close> alone; when the content is set and the
  description is \<^verbatim>\<open>None\<close> or empty, a \<open>description\<close> with the content's text.
\<close>

theorem rss_entry_description_content:
  assumes "rss_entry e = Inr item"
  shows "filter (\<lambda>c. el_tag c \<in> {''description'', qname CONTENT_NS ''encoded''}) (el_children item) =
     (if truthy (rss_description e) \<and> rss_content e \<noteq> None then
        [Element ''description'' [] (Some (Plain (the (rss_description e)))) [],
         Element (qname CONTENT_NS ''encoded'') []
           (Some (if content_type (the (rss_content e)) = Some ''CDATA''
                  then CDATA (content_text (the (rss_content e)))
                  else Plain (content_text (the (rss_content e))))) []]
      else if truthy (rss_description e) then
        [Element ''description'' [] (Some (Plain (the (rss_description e)))) []]
      else if rss_content e \<noteq> None then
        [Element ''description'' [] (Some (Plain (content_text (the (rss_content e))))) []]
      else [])"
proof -
  from rss_entry_Inr_children [OF assms] obtain encl where
    encl: "enclosure_elements e = Inr encl" and
    ch: "el_children item =
               opt_text_element ''title'' (rss_title e)
                @ opt_text_element ''link'' (rss_link e)
                @ description_elements e
                @ author_elements e
                @ guid_elements e
                @ category_elements e
                @ opt_text_element ''comments'' (rss_comments e)
                @ encl
                @ pubDate_elements e
                @ itunes_elements e"
    by blast
  have "filter (\<lambda>c. el_tag c \<in> {''description'', qname CONTENT_NS ''encoded''}) (el_children item)
          = description_elements e"
    unfolding ch by (rule filter_children_description [OF encl])
  then show ?thesis
    by (auto simp: description_elements_def text_element_def split: option.splits)
qed

lemma rss_entry_description_cdata:
  "rss_entry (fst (content (fst (description init_episode (Some ''d''))) (Some ''c'') (Some ''CDATA'')))
       = Inr (Element ''item'' [] None
        [Element ''description'' [] (Some (Plain ''d'')) [],
         Element (qname CONTENT_NS ''encoded'') [] (Some (CDATA ''c'')) []])"
  by (simp add: rss_entry_def content_def description_def init_episode_def truthy_def
        enclosure_elements_def opt_text_element_def description_elements_def text_element_def
        author_elements_def guid_elements_def category_elements_def pubDate_elements_def
        itunes_elements_def)

theorem rss_entry_description_content_witness:
  "rss_entry (fst (content (fst (description init_episode (Some ''d''))) (Some ''c'') (Some ''CDATA'')))
       = Inr (Element ''item'' [] None
        [Element ''description'' [] (Some (Plain ''d'')) [],
         Element (qname CONTENT_NS ''encoded'') [] (Some (CDATA ''c'')) []])
   \<and> filter (\<lambda>c. el_tag c \<in> {''description'', qname CONTENT_NS ''encoded''})
     (el_children (Element ''item'' [] None
        [Element ''description'' [] (Some (Plain ''d'')) [],
         Element (qname CONTENT_NS ''encoded'') [] (Some (CDATA ''c'')) []]))
   = [Element ''description'' [] (Some (Plain ''d'')) [],
      Element (qname CONTENT_NS ''encoded'') [] (Some (CDATA ''c'')) []]"
  using rss_entry_description_content [OF rss_entry_description_cdata] rss_entry_description_cdata
  by (simp add: content_def description_def init_episode_def truthy_def)

text \<open>
  Claim C2 as stated fails for a description set to the empty string beside a content:
  both are set, and the item has one \<open>description\<close> with the content's text and no
  \<open>encoded\<close> element.
\<close>

theorem rss_entry_empty_description_counterexample:
  "rss_description (fst (content (fst (description init_episode (Some []))) (Some ''c'') None))
     = Some []
   \<and> rss_content (fst (content (fst (description init_episode (Some []))) (Some ''c'') None))
     = Some \<lparr>content_text = ''c'', content_type = None\<rparr>
   \<and> rss_entry (fst (content (fst (description init_episode (Some []))) (Some ''c'') None))
     = Inr (Element ''item'' [] None [Element ''description'' [] (Some (Plain ''c'')) []])"
  by (simp add: rss_entry_def content_def description_def init_episode_def truthy_def
        enclosure_elements_def opt_text_element_def description_elements_def text_element_def
        author_elements_def guid_elements_def category_elements_def pubDate_elements_def
        itunes_elements_def)

text \<open>
  Claim C3 at \<^verbatim>\<open>itunes_duration("1:23")\<close> followed by \<^verbatim>\<open>itunes_duration()\<close>: the
  duration is stored, and the call without argument returns the bound method, not the
  stored string.
\<close>

theorem itunes_duration_returns_bound_method:
  "itunes_duration_f (fst (itunes_duration init_episode (Some (SStr ''1:23'')))) = Some ''1:23''
   \<and> snd (itunes_duration (fst (itunes_duration init_episode (Some (SStr ''1:23'')))) None)
       = BoundMethod ''itunes_duration''
   \<and> snd (itunes_duration (fst (itunes_duration init_episode (Some (SStr ''1:23'')))) None)
       \<noteq> Value (Some ''1:23'')"
  by (simp add: itunes_duration_def str_of_def init_episode_def)





end
